theory Spec2Isabelle
  imports Complex_Main "HOL-Library.Sublist"
begin

section \<open>Decoded YAML documents as Python values\<close>

text \<open>
  \<^verbatim>\<open>scripts/policy_lint.py\<close> validates whatever \<^verbatim>\<open>yaml.safe_load\<close> returns: a
  dynamically typed Python value. The shapes are the ones the safe loader constructs:
  \<^verbatim>\<open>None\<close>, \<^verbatim>\<open>bool\<close>, \<^verbatim>\<open>int\<close>, \<^verbatim>\<open>float\<close>, \<^verbatim>\<open>str\<close>, \<^verbatim>\<open>bytes\<close> (tag
  \<^verbatim>\<open>!!binary\<close>), \<^verbatim>\<open>datetime.date\<close> and \<^verbatim>\<open>datetime.datetime\<close> (timestamps),
  \<^verbatim>\<open>list\<close>, \<^verbatim>\<open>tuple\<close> (the pairs of \<^verbatim>\<open>!!omap\<close> and \<^verbatim>\<open>!!pairs\<close>), \<^verbatim>\<open>set\<close> (tag
  \<^verbatim>\<open>!!set\<close>) and \<^verbatim>\<open>dict\<close>.

  A mapping is an association list read through \<open>map_of\<close> (the first entry of a key
  is the entry of the dict); the validators only ever look up string keys, and a
  Python string key is equal to no value of another type. A set is the list of its
  members: the linter only observes whether it is empty and whether a string is a
  member.

  A float is a rational, an infinity or a NaN; the linter only observes whether it is
  zero. A timestamp is a date (year, month, day) or a date with a time (hour, minute,
  second, microsecond, and the UTC offset in minutes of an aware value); the linter
  observes none of its fields.
\<close>

datatype pyfloat = Finite rat | Infinity bool | NaN

datatype pytimestamp =
    Date int int int
  | DateTime int int int int int int int "int option"

datatype pyval =
    PyNone
  | PyBool bool
  | PyInt int
  | PyFloat pyfloat
  | PyStr string
  | PyBytes string
  | PyTimestamp pytimestamp
  | PyList "pyval list"
  | PyTuple "pyval list"
  | PySet "pyval list"
  | PyDict "(pyval \<times> pyval) list"

text \<open>The exceptions the validators can raise.\<close>

datatype pyexc = TypeError | KeyError

text \<open>\<^verbatim>\<open>isinstance(v, str)\<close>, \<^verbatim>\<open>isinstance(v, list)\<close>, \<^verbatim>\<open>isinstance(v, dict)\<close>.\<close>

fun isinstance_str :: "pyval \<Rightarrow> bool" where
  "isinstance_str (PyStr s) = True"
| "isinstance_str v = False"

fun isinstance_list :: "pyval \<Rightarrow> bool" where
  "isinstance_list (PyList xs) = True"
| "isinstance_list v = False"


text \<open>
  Truth value testing (\<^verbatim>\<open>not policy\<close>): None, False, zero, the empty string, the
  empty bytes and the empty containers are false; a date is always true.
\<close>

fun float_truthy :: "pyfloat \<Rightarrow> bool" where
  "float_truthy (Finite q) = (q \<noteq> 0)"
| "float_truthy (Infinity neg) = True"
| "float_truthy NaN = True"

fun py_truthy :: "pyval \<Rightarrow> bool" where
  "py_truthy PyNone = False"
| "py_truthy (PyBool b) = b"
| "py_truthy (PyInt i) = (i \<noteq> 0)"
| "py_truthy (PyFloat f) = float_truthy f"
| "py_truthy (PyStr s) = (s \<noteq> [])"
| "py_truthy (PyBytes b) = (b \<noteq> [])"
| "py_truthy (PyTimestamp t) = True"
| "py_truthy (PyList xs) = (xs \<noteq> [])"
| "py_truthy (PyTuple xs) = (xs \<noteq> [])"
| "py_truthy (PySet xs) = (xs \<noteq> [])"
| "py_truthy (PyDict kvs) = (kvs \<noteq> [])"

text \<open>
  \<^verbatim>\<open>key in s\<close> for two Python strings: \<open>key\<close> occurs in \<open>s\<close> as a contiguous
  substring.
\<close>

fun py_substr :: "string \<Rightarrow> string \<Rightarrow> bool" where
  "py_substr key [] = (key = [])"
| "py_substr key (c # cs) = (prefix key (c # cs) \<or> py_substr key cs)"

text \<open>
  \<^verbatim>\<open>key in container\<close> with a string key: a key lookup in a dict, a substring test
  in a string, an element test in a list, a tuple or a set. The test raises
  \<^verbatim>\<open>TypeError\<close> on bytes (a string is no bytes-like object) and on every shape that
  is no container: None, booleans, numbers, timestamps.
\<close>

fun py_in :: "string \<Rightarrow> pyval \<Rightarrow> pyexc + bool" where
  "py_in key (PyDict kvs) = Inr (map_of kvs (PyStr key) \<noteq> None)"
| "py_in key (PyStr s) = Inr (py_substr key s)"
| "py_in key (PyList xs) = Inr (PyStr key \<in> set xs)"
| "py_in key (PyTuple xs) = Inr (PyStr key \<in> set xs)"
| "py_in key (PySet xs) = Inr (PyStr key \<in> set xs)"
| "py_in key v = Inl TypeError"

text \<open>
  \<^verbatim>\<open>container[key]\<close> with a string key: the value of the key in a dict
  (\<^verbatim>\<open>KeyError\<close> when absent); strings, bytes, lists and tuples take integer
  indices only, and the other shapes cannot be subscripted: \<^verbatim>\<open>TypeError\<close>.
\<close>

fun py_getitem :: "pyval \<Rightarrow> string \<Rightarrow> pyexc + pyval" where
  "py_getitem (PyDict kvs) key =
     (case map_of kvs (PyStr key) of None \<Rightarrow> Inl KeyError | Some v \<Rightarrow> Inr v)"
| "py_getitem v key = Inl TypeError"

section \<open>String formatting\<close>

text \<open>\<^verbatim>\<open>f"{i}"\<close> for the index \<open>i\<close> of \<^verbatim>\<open>enumerate\<close>: decimal digits, no leading zero.\<close>

definition digit_char :: "nat \<Rightarrow> char" where
  "digit_char d = ''0123456789'' ! d"

fun str_nat :: "nat \<Rightarrow> string" where
  "str_nat n = (if n < 10 then [digit_char n] else str_nat (n div 10) @ [digit_char (n mod 10)])"

declare str_nat.simps [simp del]

text \<open>
  \<^verbatim>\<open>f"{value}"\<close> for a decoded value is \<^verbatim>\<open>str(value)\<close>. For a string that is the
  string itself. For every other value it is the text Python's builtin produces
  (\<^verbatim>\<open>repr\<close> of floats and of nested containers); the builtin is the parameter
  \<open>fmt\<close> of the validators.
\<close>

fun py_str :: "(pyval \<Rightarrow> string) \<Rightarrow> pyval \<Rightarrow> string" where
  "py_str fmt (PyStr s) = s"
| "py_str fmt v = fmt v"

definition apostrophe :: string where
  "apostrophe = [CHR 0x27]"

text \<open>The error messages, one definition per f-string of the source.\<close>

definition msg_missing_key :: "string \<Rightarrow> string \<Rightarrow> string" where
  "msg_missing_key filename key =
     filename @ '': Missing required key '' @ apostrophe @ key @ apostrophe"

definition msg_must_be_string :: "string \<Rightarrow> string \<Rightarrow> string" where
  "msg_must_be_string filename key =
     filename @ '': '' @ apostrophe @ key @ apostrophe @ '' must be a string''"

definition msg_rules_not_list :: "string \<Rightarrow> string" where
  "msg_rules_not_list filename =
     filename @ '': '' @ apostrophe @ ''rules'' @ apostrophe @ '' must be a list''"

definition msg_rule_not_dict :: "string \<Rightarrow> nat \<Rightarrow> string" where
  "msg_rule_not_dict filename i =
     filename @ '': Rule '' @ str_nat i @ '' must be a dictionary''"

definition msg_rule_missing :: "string \<Rightarrow> nat \<Rightarrow> string \<Rightarrow> string" where
  "msg_rule_missing filename i field =
     filename @ '': Rule '' @ str_nat i @ '' missing '' @ apostrophe @ field @ apostrophe
       @ '' field''"

definition msg_invalid_severity :: "string \<Rightarrow> nat \<Rightarrow> string \<Rightarrow> string" where
  "msg_invalid_severity filename i shown =
     filename @ '': Rule '' @ str_nat i @ '' invalid severity '' @ apostrophe @ shown
       @ apostrophe"

definition msg_policy_empty :: "string \<Rightarrow> string" where
  "msg_policy_empty filename = filename @ '': Policy file is empty''"

definition msg_not_object :: "string \<Rightarrow> string" where
  "msg_not_object filename = filename @ '': Policy must be a YAML object''"

definition msg_invalid_type :: "string \<Rightarrow> string \<Rightarrow> string" where
  "msg_invalid_type filename shown =
     filename @ '': Invalid policy type '' @ apostrophe @ shown @ apostrophe"

section \<open>Structural validation\<close>

definition required_keys :: "string list" where
  "required_keys = [''name'', ''version'', ''rules'']"

definition valid_severities :: "pyval list" where
  "valid_severities = [PyStr ''low'', PyStr ''medium'', PyStr ''high'', PyStr ''critical'']"

text \<open>
  Lines 23 to 25: the loop over \<^verbatim>\<open>required_keys\<close>, with \<^verbatim>\<open>errors\<close> threaded
  through. The membership test raises on a document that is no container.
\<close>

fun check_required_keys ::
  "pyval \<Rightarrow> string \<Rightarrow> string list \<Rightarrow> string list \<Rightarrow> pyexc + string list" where
  "check_required_keys policy filename [] errors = Inr errors"
| "check_required_keys policy filename (key # keys) errors =
     (case py_in key policy of
        Inl e \<Rightarrow> Inl e
      | Inr present \<Rightarrow>
          check_required_keys policy filename keys
            (if \<not> present then errors @ [msg_missing_key filename key] else errors))"

text \<open>
  Lines 28/29 and 32/33:
  \<^verbatim>\<open>if key in policy and not isinstance(policy[key], str): errors.append(...)\<close>.
  The subscript is only evaluated when the membership test is true.
\<close>

definition check_str_field ::
  "string \<Rightarrow> pyval \<Rightarrow> string \<Rightarrow> string list \<Rightarrow> pyexc + string list" where
  "check_str_field key policy filename errors =
     (case py_in key policy of
        Inl e \<Rightarrow> Inl e
      | Inr present \<Rightarrow>
          if present then
            (case py_getitem policy key of
               Inl e \<Rightarrow> Inl e
             | Inr v \<Rightarrow>
                 Inr (if \<not> isinstance_str v
                      then errors @ [msg_must_be_string filename key] else errors))
          else Inr errors)"

text \<open>
  Lines 41 to 56, the body of the loop over the rules. Inside the \<^verbatim>\<open>else\<close>
  branch the rule is a dict, so its membership tests and the subscript
  \<^verbatim>\<open>rule["severity"]\<close> (evaluated only when the key is present) cannot raise; they
  are lookups in the association list.
\<close>

definition check_rule ::
  "(pyval \<Rightarrow> string) \<Rightarrow> string \<Rightarrow> nat \<Rightarrow> pyval \<Rightarrow> string list \<Rightarrow> string list" where
  "check_rule fmt filename i rule errors =
     (case rule of
        PyDict fields \<Rightarrow>
          (let errors1 =
                 (if map_of fields (PyStr ''id'') = None
                  then errors @ [msg_rule_missing filename i ''id''] else errors);
               errors2 =
                 (if map_of fields (PyStr ''description'') = None
                  then errors1 @ [msg_rule_missing filename i ''description'']
                  else errors1)
           in (case map_of fields (PyStr ''severity'') of
                 None \<Rightarrow> errors2 @ [msg_rule_missing filename i ''severity'']
               | Some sev \<Rightarrow>
                   if sev \<notin> set valid_severities
                   then errors2 @ [msg_invalid_severity filename i (py_str fmt sev)]
                   else errors2))
      | _ \<Rightarrow> errors @ [msg_rule_not_dict filename i])"

text \<open>Line 40: \<^verbatim>\<open>for i, rule in enumerate(policy["rules"])\<close>.\<close>

fun check_rules ::
  "(pyval \<Rightarrow> string) \<Rightarrow> string \<Rightarrow> nat \<Rightarrow> pyval list \<Rightarrow> string list \<Rightarrow> string list" where
  "check_rules fmt filename i [] errors = errors"
| "check_rules fmt filename i (rule # rules) errors =
     check_rules fmt filename (Suc i) rules (check_rule fmt filename i rule errors)"

text \<open>
  \<^verbatim>\<open>validate_policy_structure(policy, filename)\<close>, lines 17 to 58. The result is
  \<open>Inl\<close> of the exception when a statement raises, \<open>Inr\<close> of the returned list
  otherwise.
\<close>

definition validate_policy_structure ::
  "(pyval \<Rightarrow> string) \<Rightarrow> pyval \<Rightarrow> string \<Rightarrow> pyexc + string list" where
  "validate_policy_structure fmt policy filename =
     (case check_required_keys policy filename required_keys [] of
        Inl e \<Rightarrow> Inl e
      | Inr errors1 \<Rightarrow>
     (case check_str_field ''name'' policy filename errors1 of
        Inl e \<Rightarrow> Inl e
      | Inr errors2 \<Rightarrow>
     (case check_str_field ''version'' policy filename errors2 of
        Inl e \<Rightarrow> Inl e
      | Inr errors3 \<Rightarrow>
     (case py_in ''rules'' policy of
        Inl e \<Rightarrow> Inl e
      | Inr present \<Rightarrow>
          if present then
            (case py_getitem policy ''rules'' of
               Inl e \<Rightarrow> Inl e
             | Inr rules \<Rightarrow>
                 (case rules of
                    PyList rs \<Rightarrow> Inr (check_rules fmt filename 0 rs errors3)
                  | _ \<Rightarrow> Inr (errors3 @ [msg_rules_not_list filename])))
          else Inr errors3))))"

section \<open>Content validation\<close>

definition valid_types :: "pyval list" where
  "valid_types =
     [PyStr ''security'', PyStr ''compliance'', PyStr ''performance'', PyStr ''observability'']"

text \<open>
  \<^verbatim>\<open>validate_policy_content(policy, filename)\<close>, lines 61 to 81. Truth value
  testing and \<^verbatim>\<open>isinstance\<close> accept every value, and after the second early
  return the policy is a dict, so no statement of this function raises.
\<close>

definition validate_policy_content ::
  "(pyval \<Rightarrow> string) \<Rightarrow> pyval \<Rightarrow> string \<Rightarrow> string list" where
  "validate_policy_content fmt policy filename =
     (if \<not> py_truthy policy then [msg_policy_empty filename]
      else
        (case policy of
           PyDict kvs \<Rightarrow>
             (case map_of kvs (PyStr ''type'') of
                None \<Rightarrow> []
              | Some t \<Rightarrow>
                  if t \<notin> set valid_types
                  then [msg_invalid_type filename (py_str fmt t)] else [])
         | _ \<Rightarrow> [msg_not_object filename]))"

section \<open>File-level orchestration\<close>

text \<open>
  What opening and decoding the file came to: one of the exceptions the function
  catches (with the text \<^verbatim>\<open>f"{e}"\<close> of the exception where the message embeds
  it), or the decoded document.
\<close>

datatype load_outcome =
    FileNotFoundError
  | PermissionError
  | OtherException string
  | YAMLError string
  | Loaded pyval

text \<open>
  \<^verbatim>\<open>lint_policy_file(filepath)\<close>, lines 84 to 110. An exception raised by a
  validator leaves the \<^verbatim>\<open>try\<close> block before \<^verbatim>\<open>errors.extend\<close> runs and is
  caught by \<^verbatim>\<open>except Exception\<close>; \<open>exc_str\<close> is the text \<^verbatim>\<open>f"{e}"\<close> of such an
  exception.
\<close>

definition lint_policy_file ::
  "(pyval \<Rightarrow> string) \<Rightarrow> (pyexc \<Rightarrow> string) \<Rightarrow> string \<Rightarrow> load_outcome \<Rightarrow> string list" where
  "lint_policy_file fmt exc_str filepath outcome =
     (case outcome of
        FileNotFoundError \<Rightarrow> [filepath @ '': File not found'']
      | PermissionError \<Rightarrow> [filepath @ '': Permission denied'']
      | OtherException text \<Rightarrow> [filepath @ '': Unexpected error: '' @ text]
      | YAMLError text \<Rightarrow> [filepath @ '': YAML parsing error: '' @ text]
      | Loaded policy \<Rightarrow>
          if policy = PyNone then [filepath @ '': Empty or invalid YAML file'']
          else
            (case validate_policy_structure fmt policy filepath of
               Inl e \<Rightarrow> [filepath @ '': Unexpected error: '' @ exc_str e]
             | Inr structural \<Rightarrow>
                 structural @ validate_policy_content fmt policy filepath))"

section \<open>The validators with the errors list as a heap object\<close>

text \<open>
  In the source \<^verbatim>\<open>errors\<close> is a mutable list: \<^verbatim>\<open>errors = []\<close> creates a new list
  object and \<^verbatim>\<open>errors.append(...)\<close> updates it in place. To state that no state
  survives from one call to the next, the validators are read a second time with an
  explicit store. A heap is the sequence of the list objects created so far, a
  reference is a position in it; \<open>new_list\<close> is \<^verbatim>\<open>[]\<close> and \<open>list_append\<close> is
  \<^verbatim>\<open>.append\<close>. Each function below follows the same lines of the source as the one
  it is named after; a raised exception leaves the heap as it is at that point.
\<close>

type_synonym ref = nat
type_synonym heap = "string list list"

definition new_list :: "heap \<Rightarrow> ref \<times> heap" where
  "new_list h = (length h, h @ [[]])"

definition list_append :: "ref \<Rightarrow> string \<Rightarrow> heap \<Rightarrow> heap" where
  "list_append r x h = h[r := h ! r @ [x]]"

fun check_required_keys_st ::
  "pyval \<Rightarrow> string \<Rightarrow> string list \<Rightarrow> ref \<Rightarrow> heap \<Rightarrow> pyexc option \<times> heap" where
  "check_required_keys_st policy filename [] errors h = (None, h)"
| "check_required_keys_st policy filename (key # keys) errors h =
     (case py_in key policy of
        Inl e \<Rightarrow> (Some e, h)
      | Inr present \<Rightarrow>
          check_required_keys_st policy filename keys errors
            (if \<not> present then list_append errors (msg_missing_key filename key) h else h))"

definition check_str_field_st ::
  "string \<Rightarrow> pyval \<Rightarrow> string \<Rightarrow> ref \<Rightarrow> heap \<Rightarrow> pyexc option \<times> heap" where
  "check_str_field_st key policy filename errors h =
     (case py_in key policy of
        Inl e \<Rightarrow> (Some e, h)
      | Inr present \<Rightarrow>
          if present then
            (case py_getitem policy key of
               Inl e \<Rightarrow> (Some e, h)
             | Inr v \<Rightarrow>
                 (None, if \<not> isinstance_str v
                        then list_append errors (msg_must_be_string filename key) h else h))
          else (None, h))"

definition check_rule_st ::
  "(pyval \<Rightarrow> string) \<Rightarrow> string \<Rightarrow> nat \<Rightarrow> pyval \<Rightarrow> ref \<Rightarrow> heap \<Rightarrow> heap" where
  "check_rule_st fmt filename i rule errors h =
     (case rule of
        PyDict fields \<Rightarrow>
          (let h1 =
                 (if map_of fields (PyStr ''id'') = None
                  then list_append errors (msg_rule_missing filename i ''id'') h else h);
               h2 =
                 (if map_of fields (PyStr ''description'') = None
                  then list_append errors (msg_rule_missing filename i ''description'') h1
                  else h1)
           in (case map_of fields (PyStr ''severity'') of
                 None \<Rightarrow> list_append errors (msg_rule_missing filename i ''severity'') h2
               | Some sev \<Rightarrow>
                   if sev \<notin> set valid_severities
                   then list_append errors
                          (msg_invalid_severity filename i (py_str fmt sev)) h2
                   else h2))
      | _ \<Rightarrow> list_append errors (msg_rule_not_dict filename i) h)"

fun check_rules_st ::
  "(pyval \<Rightarrow> string) \<Rightarrow> string \<Rightarrow> nat \<Rightarrow> pyval list \<Rightarrow> ref \<Rightarrow> heap \<Rightarrow> heap" where
  "check_rules_st fmt filename i [] errors h = h"
| "check_rules_st fmt filename i (rule # rules) errors h =
     check_rules_st fmt filename (Suc i) rules errors (check_rule_st fmt filename i rule errors h)"

definition validate_policy_structure_st ::
  "(pyval \<Rightarrow> string) \<Rightarrow> pyval \<Rightarrow> string \<Rightarrow> heap \<Rightarrow> (pyexc + ref) \<times> heap" where
  "validate_policy_structure_st fmt policy filename h =
     (case new_list h of (errors, h0) \<Rightarrow>
     (case check_required_keys_st policy filename required_keys errors h0 of (raised1, h1) \<Rightarrow>
     (case raised1 of Some e \<Rightarrow> (Inl e, h1) | None \<Rightarrow>
     (case check_str_field_st ''name'' policy filename errors h1 of (raised2, h2) \<Rightarrow>
     (case raised2 of Some e \<Rightarrow> (Inl e, h2) | None \<Rightarrow>
     (case check_str_field_st ''version'' policy filename errors h2 of (raised3, h3) \<Rightarrow>
     (case raised3 of Some e \<Rightarrow> (Inl e, h3) | None \<Rightarrow>
     (case py_in ''rules'' policy of
        Inl e \<Rightarrow> (Inl e, h3)
      | Inr present \<Rightarrow>
          if present then
            (case py_getitem policy ''rules'' of
               Inl e \<Rightarrow> (Inl e, h3)
             | Inr rules \<Rightarrow>
                 (case rules of
                    PyList rs \<Rightarrow> (Inr errors, check_rules_st fmt filename 0 rs errors h3)
                  | _ \<Rightarrow> (Inr errors, list_append errors (msg_rules_not_list filename) h3)))
          else (Inr errors, h3)))))))))"

definition validate_policy_content_st ::
  "(pyval \<Rightarrow> string) \<Rightarrow> pyval \<Rightarrow> string \<Rightarrow> heap \<Rightarrow> ref \<times> heap" where
  "validate_policy_content_st fmt policy filename h =
     (case new_list h of (errors, h0) \<Rightarrow>
        if \<not> py_truthy policy
        then (errors, list_append errors (msg_policy_empty filename) h0)
        else
          (case policy of
             PyDict kvs \<Rightarrow>
               (case map_of kvs (PyStr ''type'') of
                  None \<Rightarrow> (errors, h0)
                | Some t \<Rightarrow>
                    if t \<notin> set valid_types
                    then (errors, list_append errors
                                    (msg_invalid_type filename (py_str fmt t)) h0)
                    else (errors, h0))
           | _ \<Rightarrow> (errors, list_append errors (msg_not_object filename) h0)))"

section \<open>Definitions used to state the properties\<close>

text \<open>Reading a decimal rendering back: the left inverse of \<open>str_nat\<close>.\<close>

definition digit_val :: "char \<Rightarrow> nat" where
  "digit_val c = of_char c - 48"

definition nat_of_digits :: "string \<Rightarrow> nat" where
  "nat_of_digits s = foldl (\<lambda>acc c. 10 * acc + digit_val c) 0 s"

text \<open>
  The kinds of entries of an error list, told apart by how the message starts after
  the file name: a missing required key, an entry about some rule, an entry about the
  rule of index \<open>i\<close>.
\<close>

definition is_missing_key_error :: "string \<Rightarrow> string \<Rightarrow> bool" where
  "is_missing_key_error filename e = prefix (filename @ '': Missing required key '') e"

definition is_rule_error :: "string \<Rightarrow> string \<Rightarrow> bool" where
  "is_rule_error filename e = prefix (filename @ '': Rule '') e"

definition is_rule_error_at :: "string \<Rightarrow> nat \<Rightarrow> string \<Rightarrow> bool" where
  "is_rule_error_at filename i e = prefix (filename @ '': Rule '' @ str_nat i @ '' '') e"

text \<open>
  The four groups of entries that structural validation of a mapping appends, in the
  order of its checks.
\<close>

definition missing_key_errors :: "(pyval \<times> pyval) list \<Rightarrow> string \<Rightarrow> string list" where
  "missing_key_errors kvs filename =
     map (msg_missing_key filename)
       (filter (\<lambda>key. map_of kvs (PyStr key) = None) required_keys)"

definition str_field_errors ::
  "string \<Rightarrow> (pyval \<times> pyval) list \<Rightarrow> string \<Rightarrow> string list" where
  "str_field_errors key kvs filename =
     (case map_of kvs (PyStr key) of
        None \<Rightarrow> []
      | Some v \<Rightarrow> if isinstance_str v then [] else [msg_must_be_string filename key])"

definition rules_errors ::
  "(pyval \<Rightarrow> string) \<Rightarrow> (pyval \<times> pyval) list \<Rightarrow> string \<Rightarrow> string list" where
  "rules_errors fmt kvs filename =
     (case map_of kvs (PyStr ''rules'') of
        None \<Rightarrow> []
      | Some rules \<Rightarrow>
          (case rules of
             PyList rs \<Rightarrow> check_rules fmt filename 0 rs []
           | _ \<Rightarrow> [msg_rules_not_list filename]))"


section \<open>Decimal renderings\<close>

lemma digit_cases: "d < 10 \<Longrightarrow> d \<in> {0,1,2,3,4,5,6,7,8,9::nat}"
  by auto

lemma digit_val_digit_char: "d < 10 \<Longrightarrow> digit_val (digit_char d) = d"
  using digit_cases[of d] by (auto simp: digit_val_def digit_char_def)

lemma digit_char_not_space: "d < 10 \<Longrightarrow> digit_char d \<noteq> CHR '' ''"
  using digit_cases[of d] by (auto simp: digit_char_def)

lemma nat_of_digits_snoc: "nat_of_digits (s @ [c]) = 10 * nat_of_digits s + digit_val c"
  by (simp add: nat_of_digits_def)

lemma nat_of_digits_str_nat: "nat_of_digits (str_nat n) = n"
proof (induction n rule: str_nat.induct)
  case (1 n)
  show ?case
  proof (cases "n < 10")
    case True
    then show ?thesis
      by (simp add: str_nat.simps[of n] nat_of_digits_def digit_val_digit_char)
  next
    case False
    with 1 have "nat_of_digits (str_nat (n div 10)) = n div 10" by simp
    with False show ?thesis
      by (simp add: str_nat.simps[of n] nat_of_digits_snoc digit_val_digit_char)
  qed
qed

lemma str_nat_inj: "str_nat i = str_nat j \<Longrightarrow> i = j"
  by (metis nat_of_digits_str_nat)

lemma str_nat_no_space: "CHR '' '' \<notin> set (str_nat n)"
proof (induction n rule: str_nat.induct)
  case (1 n)
  show ?case
  proof (cases "n < 10")
    case True
    then show ?thesis
      using digit_char_not_space[of n] by (simp add: str_nat.simps[of n])
  next
    case False
    with 1 have "CHR '' '' \<notin> set (str_nat (n div 10))" by simp
    with False show ?thesis
      using digit_char_not_space[of "n mod 10"] by (simp add: str_nat.simps[of n])
  qed
qed

lemma split_at_first:
  "c \<notin> set a \<Longrightarrow> c \<notin> set b \<Longrightarrow> a @ c # x = b @ c # y \<Longrightarrow> a = b \<and> x = y"
proof (induction a arbitrary: b)
  case Nil
  then show ?case by (cases b) auto
next
  case (Cons h t)
  then show ?case by (cases b) auto
qed

lemma str_nat_space_eq:
  "str_nat i @ CHR '' '' # x = str_nat j @ CHR '' '' # y \<longleftrightarrow> i = j \<and> x = y"
  using split_at_first[OF str_nat_no_space str_nat_no_space] str_nat_inj by blast

section \<open>Structural validation of a mapping\<close>

lemma check_rule_append:
  "check_rule fmt fn i r errs = errs @ check_rule fmt fn i r []"
  by (cases r) (auto simp: check_rule_def Let_def split: option.splits)

lemma check_rules_append:
  "check_rules fmt fn i rs errs = errs @ check_rules fmt fn i rs []"
proof (induction rs arbitrary: i errs)
  case Nil
  show ?case by simp
next
  case (Cons r rs)
  have "check_rules fmt fn i (r # rs) errs
        = check_rule fmt fn i r errs @ check_rules fmt fn (Suc i) rs []"
    using Cons.IH[of "Suc i" "check_rule fmt fn i r errs"] by simp
  also have "\<dots> = errs @ check_rule fmt fn i r [] @ check_rules fmt fn (Suc i) rs []"
    using check_rule_append[of fmt fn i r errs] by simp
  also have "\<dots> = errs @ check_rules fmt fn i (r # rs) []"
    using Cons.IH[of "Suc i" "check_rule fmt fn i r []"] by simp
  finally show ?case .
qed

lemma check_rules_Cons:
  "check_rules fmt fn i (r # rs) [] = check_rule fmt fn i r [] @ check_rules fmt fn (Suc i) rs []"
  using check_rules_append[of fmt fn "Suc i" rs "check_rule fmt fn i r []"] by simp

lemma check_required_keys_dict:
  "check_required_keys (PyDict kvs) fn keys errs =
     Inr (errs @ map (msg_missing_key fn) (filter (\<lambda>key. map_of kvs (PyStr key) = None) keys))"
  by (induction keys arbitrary: errs) auto

lemma check_str_field_dict:
  "check_str_field key (PyDict kvs) fn errs = Inr (errs @ str_field_errors key kvs fn)"
  by (auto simp: check_str_field_def str_field_errors_def split: option.splits)

lemma structure_dict:
  "validate_policy_structure fmt (PyDict kvs) fn =
     Inr (missing_key_errors kvs fn @ str_field_errors ''name'' kvs fn
          @ str_field_errors ''version'' kvs fn @ rules_errors fmt kvs fn)"
proof -
  have rules: "(case map_of kvs (PyStr ''rules'') of
        None \<Rightarrow> Inr errs
      | Some rules \<Rightarrow>
          (case rules of
             PyList rs \<Rightarrow> Inr (check_rules fmt fn 0 rs errs)
           | _ \<Rightarrow> Inr (errs @ [msg_rules_not_list fn])))
      = (Inr (errs @ rules_errors fmt kvs fn) :: pyexc + string list)" for errs
    using check_rules_append[of fmt fn 0 _ errs]
    by (auto simp: rules_errors_def split: option.splits pyval.splits)
  show ?thesis
    unfolding validate_policy_structure_def
    using rules
    by (auto simp add: check_required_keys_dict check_str_field_dict missing_key_errors_def
             split: option.splits pyval.splits)
qed

section \<open>Structural validation of a document that is no mapping\<close>


text \<open>
  C1. The claim is that structural validation returns an error list, without raising,
  on every decoded document. On the number 5 the code does not: the first membership
  test \<^verbatim>\<open>"name" in policy\<close> raises \<^verbatim>\<open>TypeError\<close>. The orchestration then reports
  the file by the single entry \<^verbatim>\<open>Unexpected error: ...\<close>, and the entry
  \<^verbatim>\<open>Policy must be a YAML object\<close>, which content validation returns for this very
  document, is never produced.
\<close>

theorem structure_raises_on_number:
  "validate_policy_structure fmt (PyInt 5) fn = Inl TypeError
   \<and> lint_policy_file fmt exc_str fn (Loaded (PyInt 5))
       = [fn @ '': Unexpected error: '' @ exc_str TypeError]
   \<and> validate_policy_content fmt (PyInt 5) fn = [msg_not_object fn]"
  by (simp add: validate_policy_structure_def required_keys_def lint_policy_file_def
        validate_policy_content_def)

section \<open>Telling the entries of an error list apart\<close>

lemmas msg_defs =
  msg_missing_key_def msg_must_be_string_def msg_rules_not_list_def msg_rule_not_dict_def
  msg_rule_missing_def msg_invalid_severity_def apostrophe_def

lemma rule_error_at_is_rule_error: "is_rule_error_at fn i e \<Longrightarrow> is_rule_error fn e"
  unfolding is_rule_error_at_def is_rule_error_def
  by (metis append.assoc append_prefixD)

lemma rule_error_not_missing_key: "is_rule_error fn e \<Longrightarrow> \<not> is_missing_key_error fn e"
  unfolding is_rule_error_def is_missing_key_error_def
  by (auto simp: prefix_def)

lemma prefix_str_nat_space:
  "prefix (str_nat i @ CHR '' '' # u) (str_nat j @ CHR '' '' # v) \<Longrightarrow> i = j"
  by (auto simp: prefix_def str_nat_space_eq)

lemma rule_error_at_unique:
  "is_rule_error_at fn i e \<Longrightarrow> is_rule_error_at fn j e \<Longrightarrow> i = j"
proof -
  assume a: "is_rule_error_at fn i e" and b: "is_rule_error_at fn j e"
  from a obtain u where u: "e = fn @ '': Rule '' @ str_nat i @ CHR '' '' # u"
    by (auto simp: is_rule_error_at_def prefix_def)
  from b obtain v where v: "e = fn @ '': Rule '' @ str_nat j @ CHR '' '' # v"
    by (auto simp: is_rule_error_at_def prefix_def)
  from u v have "str_nat i @ CHR '' '' # u = str_nat j @ CHR '' '' # v" by simp
  then show "i = j" by (simp add: str_nat_space_eq)
qed

lemma check_rule_errors_at:
  "e \<in> set (check_rule fmt fn i r []) \<Longrightarrow> is_rule_error_at fn i e"
  by (cases r)
     (auto simp: check_rule_def Let_def is_rule_error_at_def msg_defs split: option.splits if_splits)

lemma filter_check_rule_at:
  "filter (is_rule_error_at fn i) (check_rule fmt fn j r []) =
     (if i = j then check_rule fmt fn j r [] else [])"
proof (cases "i = j")
  case True
  then show ?thesis
    using check_rule_errors_at[of _ fmt fn j r] by (simp add: filter_id_conv)
next
  case False
  then have "\<forall>e \<in> set (check_rule fmt fn j r []). \<not> is_rule_error_at fn i e"
    using check_rule_errors_at[of _ fmt fn j r] rule_error_at_unique[of fn i _ j] by blast
  then have "filter (is_rule_error_at fn i) (check_rule fmt fn j r []) = []"
    by (simp add: filter_empty_conv)
  with False show ?thesis by simp
qed

lemma filter_check_rules_at:
  "filter (is_rule_error_at fn i) (check_rules fmt fn k rs []) =
     (if k \<le> i \<and> i < k + length rs then check_rule fmt fn i (rs ! (i - k)) [] else [])"
proof (induction rs arbitrary: k)
  case Nil
  show ?case by auto
next
  case (Cons r rs)
  show ?case
  proof (cases "i = k")
    case True
    with Cons.IH[of "Suc k"] show ?thesis
      by (simp add: check_rules_Cons filter_check_rule_at del: check_rules.simps)
  next
    case False
    with Cons.IH[of "Suc k"] show ?thesis
      by (auto simp: check_rules_Cons filter_check_rule_at Suc_diff_le nth_Cons'
               simp del: check_rules.simps)
  qed
qed





lemma missing_key_errors_all:
  "e \<in> set (missing_key_errors kvs fn) \<Longrightarrow> is_missing_key_error fn e"
  by (auto simp: missing_key_errors_def is_missing_key_error_def msg_missing_key_def)

lemma missing_key_errors_not_rule:
  "e \<in> set (missing_key_errors kvs fn) \<Longrightarrow> \<not> is_rule_error fn e"
  using missing_key_errors_all rule_error_not_missing_key by blast


lemma str_field_errors_not_rule:
  "e \<in> set (str_field_errors key kvs fn) \<Longrightarrow> \<not> is_rule_error fn e"
  by (auto simp: str_field_errors_def is_rule_error_def msg_defs prefix_def
           split: option.splits if_splits)


lemma rules_not_list_not_rule: "\<not> is_rule_error fn (msg_rules_not_list fn)"
  by (auto simp: is_rule_error_def msg_defs prefix_def)



lemma str_field_errors_not_rule_at:
  "e \<in> set (str_field_errors key kvs fn) \<Longrightarrow> \<not> is_rule_error_at fn i e"
  using str_field_errors_not_rule rule_error_at_is_rule_error by blast

lemma missing_key_errors_not_rule_at:
  "e \<in> set (missing_key_errors kvs fn) \<Longrightarrow> \<not> is_rule_error_at fn i e"
  using missing_key_errors_not_rule rule_error_at_is_rule_error by blast

lemma filter_none: "(\<And>e. e \<in> set xs \<Longrightarrow> \<not> P e) \<Longrightarrow> filter P xs = []"
  by (simp add: filter_empty_conv)




lemma structure_dict_rule_entries_at:
  assumes "map_of kvs (PyStr ''rules'') = Some (PyList rs)"
  shows "filter (is_rule_error_at fn i)
     (missing_key_errors kvs fn @ str_field_errors ''name'' kvs fn
      @ str_field_errors ''version'' kvs fn @ rules_errors fmt kvs fn)
   = (if i < length rs then check_rule fmt fn i (rs ! i) [] else [])"
proof -
  have r: "rules_errors fmt kvs fn = check_rules fmt fn 0 rs []"
    using assms by (simp add: rules_errors_def)
  show ?thesis
    unfolding r
    using filter_none[of "missing_key_errors kvs fn" "is_rule_error_at fn i"]
      filter_none[of "str_field_errors ''name'' kvs fn" "is_rule_error_at fn i"]
      filter_none[of "str_field_errors ''version'' kvs fn" "is_rule_error_at fn i"]
      missing_key_errors_not_rule_at str_field_errors_not_rule_at
    by (simp add: filter_check_rules_at)
qed

section \<open>Missing required keys\<close>





section \<open>Per-rule errors\<close>

lemma missing_severity_is_at: "is_rule_error_at fn i (msg_rule_missing fn i field)"
  by (simp add: is_rule_error_at_def msg_rule_missing_def)

lemma invalid_severity_is_at: "is_rule_error_at fn i (msg_invalid_severity fn i shown)"
  by (simp add: is_rule_error_at_def msg_invalid_severity_def)

lemma check_rule_severity_exclusive:
  "\<not> (msg_rule_missing fn i ''severity'' \<in> set (check_rule fmt fn i r [])
      \<and> msg_invalid_severity fn i shown \<in> set (check_rule fmt fn i r []))"
  by (cases r)
     (auto simp: check_rule_def Let_def msg_defs split: option.splits if_splits)

lemma rules_errors_no_list:
  assumes "\<not> (\<exists>rs. map_of kvs (PyStr ''rules'') = Some (PyList rs))"
    and "e \<in> set (rules_errors fmt kvs fn)"
  shows "\<not> is_rule_error fn e"
proof (cases "map_of kvs (PyStr ''rules'')")
  case None
  with assms(2) show ?thesis by (simp add: rules_errors_def)
next
  case (Some rules)
  with assms have "e = msg_rules_not_list fn"
    by (cases rules) (simp_all add: rules_errors_def)
  then show ?thesis by (simp add: rules_not_list_not_rule)
qed

text \<open>
  C5. For every mapping document and every rule index \<open>i\<close>, the result of
  structural validation never holds both \<^verbatim>\<open>Rule {i} missing 'severity' field\<close>
  and \<^verbatim>\<open>Rule {i} invalid severity '{value}'\<close>, whatever the text of the value.
\<close>

theorem severity_errors_exclusive:
  "\<exists>errs. validate_policy_structure fmt (PyDict kvs) fn = Inr errs
     \<and> \<not> (msg_rule_missing fn i ''severity'' \<in> set errs
          \<and> msg_invalid_severity fn i shown \<in> set errs)"
proof -
  define errs where "errs = missing_key_errors kvs fn @ str_field_errors ''name'' kvs fn
      @ str_field_errors ''version'' kvs fn @ rules_errors fmt kvs fn"
  have ret: "validate_policy_structure fmt (PyDict kvs) fn = Inr errs"
    by (simp add: structure_dict errs_def)
  have "\<not> (msg_rule_missing fn i ''severity'' \<in> set errs
          \<and> msg_invalid_severity fn i shown \<in> set errs)"
  proof
    assume both: "msg_rule_missing fn i ''severity'' \<in> set errs
          \<and> msg_invalid_severity fn i shown \<in> set errs"
    then have m: "msg_rule_missing fn i ''severity'' \<in> set (filter (is_rule_error_at fn i) errs)"
      and v: "msg_invalid_severity fn i shown \<in> set (filter (is_rule_error_at fn i) errs)"
      using missing_severity_is_at[of fn i] invalid_severity_is_at[of fn i shown] by simp_all
    show False
    proof (cases "\<exists>rs. map_of kvs (PyStr ''rules'') = Some (PyList rs)")
      case True
      then obtain rs where rs: "map_of kvs (PyStr ''rules'') = Some (PyList rs)" by blast
      have f: "filter (is_rule_error_at fn i) errs
                = (if i < length rs then check_rule fmt fn i (rs ! i) [] else [])"
        unfolding errs_def by (rule structure_dict_rule_entries_at[OF rs])
      have m': "msg_rule_missing fn i ''severity''
                  \<in> set (if i < length rs then check_rule fmt fn i (rs ! i) [] else [])"
        using m unfolding f .
      have v': "msg_invalid_severity fn i shown
                  \<in> set (if i < length rs then check_rule fmt fn i (rs ! i) [] else [])"
        using v unfolding f .
      from m' v' show False
        using check_rule_severity_exclusive[of fn i fmt "rs ! i" shown]
        by (cases "i < length rs") simp_all
    next
      case False
      then have r: "\<And>e. e \<in> set (rules_errors fmt kvs fn) \<Longrightarrow> \<not> is_rule_error_at fn i e"
        using rules_errors_no_list rule_error_at_is_rule_error by blast
      have "\<not> is_rule_error_at fn i e" if "e \<in> set errs" for e
      proof -
        from that consider "e \<in> set (missing_key_errors kvs fn)"
          | "e \<in> set (str_field_errors ''name'' kvs fn)"
          | "e \<in> set (str_field_errors ''version'' kvs fn)"
          | "e \<in> set (rules_errors fmt kvs fn)"
          by (auto simp: errs_def)
        then show ?thesis
          using missing_key_errors_not_rule_at str_field_errors_not_rule_at r
          by cases blast+
      qed
      then have "filter (is_rule_error_at fn i) errs = []"
        by (rule filter_none)
      with m show False by simp
    qed
  qed
  with ret show ?thesis by blast
qed



section \<open>File-level orchestration and the scenarios\<close>

text \<open>
  C2 (as amended). A file that decodes to null yields the single entry
  \<^verbatim>\<open>Empty or invalid YAML file\<close> and no validator runs: the result holds neither the
  structural validator's exception nor the content validator's entry. A file that
  decodes to an empty mapping or to an empty string is not short-circuited: both
  validators run, and the result is the three missing-key entries followed by
  \<^verbatim>\<open>Policy file is empty\<close>.
\<close>

theorem lint_null_short_circuit:
  "lint_policy_file fmt exc_str fp (Loaded PyNone) = [fp @ '': Empty or invalid YAML file'']
   \<and> validate_policy_structure fmt PyNone fp = Inl TypeError
   \<and> validate_policy_content fmt PyNone fp = [msg_policy_empty fp]
   \<and> lint_policy_file fmt exc_str fp (Loaded (PyDict [])) =
       [msg_missing_key fp ''name'', msg_missing_key fp ''version'',
        msg_missing_key fp ''rules'', msg_policy_empty fp]
   \<and> lint_policy_file fmt exc_str fp (Loaded (PyStr [])) =
       [msg_missing_key fp ''name'', msg_missing_key fp ''version'',
        msg_missing_key fp ''rules'', msg_policy_empty fp]"
  by (simp add: lint_policy_file_def validate_policy_structure_def validate_policy_content_def
        required_keys_def check_str_field_def)

text \<open>
  C2 as stated fails: for a file that decodes to the empty mapping the result is not
  the single \<^verbatim>\<open>Empty or invalid YAML file\<close> entry; it has four entries.
\<close>

theorem lint_empty_mapping_not_short_circuited:
  "\<forall>fmt exc_str.
     lint_policy_file fmt exc_str ''policy.yaml'' (Loaded (PyDict []))
       \<noteq> [''policy.yaml: Empty or invalid YAML file'']
     \<and> length (lint_policy_file fmt exc_str ''policy.yaml'' (Loaded (PyDict []))) = 4"
  by (simp add: lint_policy_file_def validate_policy_structure_def validate_policy_content_def
        required_keys_def check_str_field_def)

text \<open>
  C4. On the empty mapping structural validation returns the three missing-key
  entries for \<open>name\<close>, \<open>version\<close>, \<open>rules\<close>, content validation returns the single
  entry \<^verbatim>\<open>Policy file is empty\<close>, and the orchestration concatenates them, structural
  first: four entries.
\<close>

theorem empty_mapping_four_errors:
  "validate_policy_structure fmt (PyDict []) fn =
     Inr [msg_missing_key fn ''name'', msg_missing_key fn ''version'', msg_missing_key fn ''rules'']
   \<and> validate_policy_content fmt (PyDict []) fn = [msg_policy_empty fn]
   \<and> lint_policy_file fmt exc_str fn (Loaded (PyDict [])) =
       [msg_missing_key fn ''name'', msg_missing_key fn ''version'',
        msg_missing_key fn ''rules'', msg_policy_empty fn]
   \<and> length (lint_policy_file fmt exc_str fn (Loaded (PyDict []))) = 4"
  by (simp add: lint_policy_file_def validate_policy_structure_def validate_policy_content_def
        required_keys_def check_str_field_def)



text \<open>
  C8. On the minimal valid policy of scenario 1 both validators return the empty list,
  and so does the orchestration.
\<close>

theorem minimal_policy_no_errors:
  "validate_policy_structure fmt
      (PyDict [(PyStr ''name'', PyStr ''p1''), (PyStr ''version'', PyStr ''1.0''),
               (PyStr ''rules'', PyList [PyDict [(PyStr ''id'', PyStr ''r1''),
                  (PyStr ''description'', PyStr ''d''), (PyStr ''severity'', PyStr ''high'')]])])
      fn = Inr []
   \<and> validate_policy_content fmt
      (PyDict [(PyStr ''name'', PyStr ''p1''), (PyStr ''version'', PyStr ''1.0''),
               (PyStr ''rules'', PyList [PyDict [(PyStr ''id'', PyStr ''r1''),
                  (PyStr ''description'', PyStr ''d''), (PyStr ''severity'', PyStr ''high'')]])])
      fn = []
   \<and> lint_policy_file fmt exc_str fn
      (Loaded (PyDict [(PyStr ''name'', PyStr ''p1''), (PyStr ''version'', PyStr ''1.0''),
               (PyStr ''rules'', PyList [PyDict [(PyStr ''id'', PyStr ''r1''),
                  (PyStr ''description'', PyStr ''d''), (PyStr ''severity'', PyStr ''high'')]])]))
      = []"
  by (simp add: lint_policy_file_def validate_policy_structure_def validate_policy_content_def
        required_keys_def check_str_field_def check_rule_def valid_severities_def)


section \<open>The heap reading agrees with the functional one\<close>

text \<open>Each step touches the cell of the errors list only, and does to it what the
  accumulator of the functional reading does.\<close>

lemma check_required_keys_st_sim:
  "r < length h \<Longrightarrow>
   \<exists>l. check_required_keys_st policy fn keys r h =
         ((case check_required_keys policy fn keys (h ! r) of
             Inl e \<Rightarrow> Some e | Inr errs \<Rightarrow> None), h[r := l])
      \<and> (case check_required_keys policy fn keys (h ! r) of
            Inl e \<Rightarrow> True | Inr errs \<Rightarrow> l = errs)"
proof (induction keys arbitrary: h)
  case Nil
  then show ?case by (auto intro: exI[of _ "h ! r"])
next
  case (Cons key keys)
  show ?case
  proof (cases "py_in key policy")
    case (Inl e)
    then show ?thesis by (auto intro: exI[of _ "h ! r"])
  next
    case (Inr present)
    let ?h' = "if \<not> present then list_append r (msg_missing_key fn key) h else h"
    have len: "r < length ?h'" using Cons.prems by (simp add: list_append_def)
    have cell: "?h' ! r = (if \<not> present then h ! r @ [msg_missing_key fn key] else h ! r)"
      using Cons.prems by (simp add: list_append_def)
    have upd: "?h'[r := l] = h[r := l]" for l
      by (simp add: list_append_def)
    from Cons.IH[OF len] Inr cell upd show ?thesis by simp
  qed
qed

lemma check_str_field_st_sim:
  "r < length h \<Longrightarrow>
   \<exists>l. check_str_field_st key policy fn r h =
         ((case check_str_field key policy fn (h ! r) of
             Inl e \<Rightarrow> Some e | Inr errs \<Rightarrow> None), h[r := l])
      \<and> (case check_str_field key policy fn (h ! r) of
            Inl e \<Rightarrow> True | Inr errs \<Rightarrow> l = errs)"
  by (auto simp: check_str_field_st_def check_str_field_def list_append_def
           split: sum.splits intro: exI[of _ "h ! r"])

lemma check_rule_st_sim:
  "r < length h \<Longrightarrow>
   check_rule_st fmt fn i rule r h = h[r := check_rule fmt fn i rule (h ! r)]"
  by (cases rule)
     (auto simp: check_rule_st_def check_rule_def list_append_def Let_def split: option.splits)

lemma check_rules_st_sim:
  "r < length h \<Longrightarrow>
   check_rules_st fmt fn i rules r h = h[r := check_rules fmt fn i rules (h ! r)]"
proof (induction rules arbitrary: i h)
  case Nil
  then show ?case by simp
next
  case (Cons rule rules)
  then show ?case by (simp add: check_rule_st_sim)
qed

lemma fresh_cell_update: "(h @ [x])[length h := l] = h @ [l]"
  by simp

lemma validate_policy_structure_st_sim:
  "\<exists>l. validate_policy_structure_st fmt policy fn h =
         ((case validate_policy_structure fmt policy fn of
             Inl e \<Rightarrow> Inl e | Inr errs \<Rightarrow> Inr (length h)), h @ [l])
      \<and> (case validate_policy_structure fmt policy fn of
            Inl e \<Rightarrow> True | Inr errs \<Rightarrow> l = errs)"
proof -
  define r where "r = length h"
  define h0 where "h0 = h @ [[]::string list]"
  have new: "new_list h = (r, h0)" by (simp add: new_list_def r_def h0_def)
  have r0: "r < length h0" and c0: "h0 ! r = []" by (simp_all add: r_def h0_def)
  have fin: "h0[r := l] = h @ [l]" for l by (simp add: r_def h0_def)
  from check_required_keys_st_sim[OF r0, of policy fn required_keys]
  obtain l1 where s1: "check_required_keys_st policy fn required_keys r h0 =
         ((case check_required_keys policy fn required_keys [] of
             Inl e \<Rightarrow> Some e | Inr errs \<Rightarrow> None), h0[r := l1])"
    and e1: "(case check_required_keys policy fn required_keys [] of
            Inl e \<Rightarrow> True | Inr errs \<Rightarrow> l1 = errs)"
    unfolding c0 by blast
  show ?thesis
  proof (cases "check_required_keys policy fn required_keys []")
    case (Inl e)
    with s1 new show ?thesis
      by (auto simp: validate_policy_structure_st_def validate_policy_structure_def fin)
  next
    case (Inr errors1)
    with e1 have l1: "l1 = errors1" by simp
    define h1 where "h1 = h0[r := errors1]"
    have r1: "r < length h1" and c1: "h1 ! r = errors1" using r0 by (simp_all add: h1_def)
    have u1: "h1[r := l] = h0[r := l]" for l by (simp add: h1_def)
    from check_str_field_st_sim[OF r1, of "''name''" policy fn]
    obtain l2 where s2: "check_str_field_st ''name'' policy fn r h1 =
         ((case check_str_field ''name'' policy fn errors1 of
             Inl e \<Rightarrow> Some e | Inr errs \<Rightarrow> None), h0[r := l2])"
      and e2: "(case check_str_field ''name'' policy fn errors1 of
            Inl e \<Rightarrow> True | Inr errs \<Rightarrow> l2 = errs)"
      unfolding c1 u1 by blast
    show ?thesis
    proof (cases "check_str_field ''name'' policy fn errors1")
      case (Inl e)
      with s1 s2 new Inr l1 show ?thesis
        by (auto simp: validate_policy_structure_st_def validate_policy_structure_def fin
              h1_def)
    next
      case Inr2: (Inr errors2)
      with e2 have l2: "l2 = errors2" by simp
      define h2 where "h2 = h0[r := errors2]"
      have r2: "r < length h2" and c2: "h2 ! r = errors2" using r0 by (simp_all add: h2_def)
      have u2: "h2[r := l] = h0[r := l]" for l by (simp add: h2_def)
      from check_str_field_st_sim[OF r2, of "''version''" policy fn]
      obtain l3 where s3: "check_str_field_st ''version'' policy fn r h2 =
           ((case check_str_field ''version'' policy fn errors2 of
               Inl e \<Rightarrow> Some e | Inr errs \<Rightarrow> None), h0[r := l3])"
        and e3: "(case check_str_field ''version'' policy fn errors2 of
              Inl e \<Rightarrow> True | Inr errs \<Rightarrow> l3 = errs)"
        unfolding c2 u2 by blast
      show ?thesis
      proof (cases "check_str_field ''version'' policy fn errors2")
        case (Inl e)
        with s1 s2 s3 new Inr l1 Inr2 l2 show ?thesis
          by (auto simp: validate_policy_structure_st_def validate_policy_structure_def fin
                h1_def h2_def)
      next
        case Inr3: (Inr errors3)
        with e3 have l3: "l3 = errors3" by simp
        define h3 where "h3 = h0[r := errors3]"
        have r3: "r < length h3" and c3: "h3 ! r = errors3" using r0 by (simp_all add: h3_def)
        have st: "validate_policy_structure_st fmt policy fn h =
          (case py_in ''rules'' policy of
             Inl e \<Rightarrow> (Inl e, h3)
           | Inr present \<Rightarrow>
               if present then
                 (case py_getitem policy ''rules'' of
                    Inl e \<Rightarrow> (Inl e, h3)
                  | Inr rules \<Rightarrow>
                      (case rules of
                         PyList rs \<Rightarrow> (Inr r, check_rules_st fmt fn 0 rs r h3)
                       | _ \<Rightarrow> (Inr r, list_append r (msg_rules_not_list fn) h3)))
               else (Inr r, h3))"
          unfolding h3_def
          using s1 s2 s3 new Inr l1 Inr2 l2 Inr3 l3
          by (simp add: validate_policy_structure_st_def h1_def h2_def)
        have fu: "validate_policy_structure fmt policy fn =
          (case py_in ''rules'' policy of
             Inl e \<Rightarrow> Inl e
           | Inr present \<Rightarrow>
               if present then
                 (case py_getitem policy ''rules'' of
                    Inl e \<Rightarrow> Inl e
                  | Inr rules \<Rightarrow>
                      (case rules of
                         PyList rs \<Rightarrow> Inr (check_rules fmt fn 0 rs errors3)
                       | _ \<Rightarrow> Inr (errors3 @ [msg_rules_not_list fn])))
               else Inr errors3)"
          using Inr Inr2 Inr3 by (simp add: validate_policy_structure_def)
        have a: "list_append r x h3 = h @ [errors3 @ [x]]" for x
        proof -
          have "list_append r x h3 = h3[r := errors3 @ [x]]"
            using c3 by (simp add: list_append_def)
          also have "\<dots> = h0[r := errors3 @ [x]]" by (simp add: h3_def)
          finally show ?thesis by (simp only: fin)
        qed
        have b: "check_rules_st fmt fn 0 rs r h3 = h @ [check_rules fmt fn 0 rs errors3]" for rs
        proof -
          have "check_rules_st fmt fn 0 rs r h3 = h3[r := check_rules fmt fn 0 rs errors3]"
            using check_rules_st_sim[OF r3, of fmt fn 0 rs] c3 by simp
          also have "\<dots> = h0[r := check_rules fmt fn 0 rs errors3]" by (simp add: h3_def)
          finally show ?thesis by (simp only: fin)
        qed
        have c: "h3 = h @ [errors3]" unfolding h3_def by (simp only: fin)
        note a' = a[unfolded c r_def] and b' = b[unfolded c r_def]
        show ?thesis
          unfolding st fu
          by (auto simp: a' b' c r_def split: sum.splits pyval.splits)
      qed
    qed
  qed
qed

lemma validate_policy_content_st_sim:
  "validate_policy_content_st fmt policy fn h =
     (length h, h @ [validate_policy_content fmt policy fn])"
  by (cases policy)
     (auto simp: validate_policy_content_st_def validate_policy_content_def new_list_def
        list_append_def split: option.splits)

text \<open>
  C9. Validation is a function of the document and the file name alone. From any
  heap, whatever lists earlier calls have left in it, each validator creates a list of
  its own and leaves every existing list untouched; validating the same document with
  the same file name a second time, in the heap the first call left, gives a second
  list, and both lists hold the same sequence: the value of the functional reading,
  which has no heap to depend on. A document on which structural validation raises
  raises the same exception both times.
\<close>

theorem validation_twice_same_result:
  "(case validate_policy_structure_st fmt policy fn h of (res1, h1) \<Rightarrow>
    (case validate_policy_structure_st fmt policy fn h1 of (res2, h2) \<Rightarrow>
       take (length h) h2 = h
       \<and> (case validate_policy_structure fmt policy fn of
            Inl e \<Rightarrow> res1 = Inl e \<and> res2 = Inl e
          | Inr errs \<Rightarrow>
              res1 = Inr (length h) \<and> res2 = Inr (length h1) \<and> length h < length h1
              \<and> h1 ! length h = errs \<and> h2 ! length h = errs \<and> h2 ! length h1 = errs)))
   \<and> (case validate_policy_content_st fmt policy fn h of (ref1, h1) \<Rightarrow>
      (case validate_policy_content_st fmt policy fn h1 of (ref2, h2) \<Rightarrow>
         take (length h) h2 = h \<and> ref1 \<noteq> ref2
         \<and> h1 ! ref1 = validate_policy_content fmt policy fn
         \<and> h2 ! ref1 = validate_policy_content fmt policy fn
         \<and> h2 ! ref2 = validate_policy_content fmt policy fn))"
proof
  from validate_policy_structure_st_sim[of fmt policy fn h]
  obtain l1 where s1: "validate_policy_structure_st fmt policy fn h =
         ((case validate_policy_structure fmt policy fn of
             Inl e \<Rightarrow> Inl e | Inr errs \<Rightarrow> Inr (length h)), h @ [l1])"
    and e1: "(case validate_policy_structure fmt policy fn of
            Inl e \<Rightarrow> True | Inr errs \<Rightarrow> l1 = errs)"
    by blast
  from validate_policy_structure_st_sim[of fmt policy fn "h @ [l1]"]
  obtain l2 where s2: "validate_policy_structure_st fmt policy fn (h @ [l1]) =
         ((case validate_policy_structure fmt policy fn of
             Inl e \<Rightarrow> Inl e | Inr errs \<Rightarrow> Inr (length (h @ [l1]))), (h @ [l1]) @ [l2])"
    and e2: "(case validate_policy_structure fmt policy fn of
            Inl e \<Rightarrow> True | Inr errs \<Rightarrow> l2 = errs)"
    by blast
  show "(case validate_policy_structure_st fmt policy fn h of (res1, h1) \<Rightarrow>
    (case validate_policy_structure_st fmt policy fn h1 of (res2, h2) \<Rightarrow>
       take (length h) h2 = h
       \<and> (case validate_policy_structure fmt policy fn of
            Inl e \<Rightarrow> res1 = Inl e \<and> res2 = Inl e
          | Inr errs \<Rightarrow>
              res1 = Inr (length h) \<and> res2 = Inr (length h1) \<and> length h < length h1
              \<and> h1 ! length h = errs \<and> h2 ! length h = errs \<and> h2 ! length h1 = errs)))"
    using e1 e2 unfolding s1 prod.case s2
    by (cases "validate_policy_structure fmt policy fn") (simp_all add: nth_append)
next
  show "(case validate_policy_content_st fmt policy fn h of (ref1, h1) \<Rightarrow>
      (case validate_policy_content_st fmt policy fn h1 of (ref2, h2) \<Rightarrow>
         take (length h) h2 = h \<and> ref1 \<noteq> ref2
         \<and> h1 ! ref1 = validate_policy_content fmt policy fn
         \<and> h2 ! ref1 = validate_policy_content fmt policy fn
         \<and> h2 ! ref2 = validate_policy_content fmt policy fn))"
    by (simp add: validate_policy_content_st_sim nth_append)
qed

end
